theory Spec2Isabelle
  imports Main
begin

section \<open>The firewall rule resource of the ddcloud provider\<close>

text \<open>
  A shallow embedding of \<^verbatim>\<open>vendor/ddcloud/resource_firewall_rule.go\<close>: the four
  lifecycle functions of the resource, scope resolution and the parsing functions they
  use. The schema declaration and \<^verbatim>\<open>parsePortRange\<close>, which nothing calls, are left
  out, and so are the calls of \<^verbatim>\<open>log.Printf\<close>.

  Go strings are byte strings and are modelled as \<^typ>\<open>string\<close>; Go's \<^verbatim>\<open>int\<close> is
  modelled as \<^typ>\<open>int\<close>, with the range check of \<^verbatim>\<open>strconv.Atoi\<close> written out.
  Errors are values. The remote client and the host's resource data are collaborators of
  the file: the client is a record of responses, the resource data a record of what the
  host stores, and every lifecycle function returns its error, the resource data it
  leaves behind and the sequence of lock operations, remote calls and data writes it
  has made.
\<close>

subsection \<open>Functions of the Go library\<close>

datatype num_err = ErrSyntax | ErrRange

definition isDigit :: "char \<Rightarrow> bool" where
  "isDigit c = (48 \<le> (of_char c :: nat) \<and> (of_char c :: nat) \<le> 57)"

definition digitVal :: "char \<Rightarrow> nat" where
  "digitVal c = of_char c - 48"

definition digitsVal :: "string \<Rightarrow> nat" where
  "digitsVal ds = foldl (\<lambda>n c. 10 * n + digitVal c) 0 ds"

text \<open>The width of Go's \<^verbatim>\<open>int\<close> on the 64-bit platforms the plugin is built for.\<close>

definition IntSize :: nat where
  "IntSize = 64"

text \<open>
  \<^verbatim>\<open>strconv.Atoi\<close>, that is \<^verbatim>\<open>ParseInt(s, 10, 0)\<close>: an optional sign, then one decimal
  digit or more. A syntax error returns 0; a value out of the range of \<^verbatim>\<open>int\<close> returns
  the nearest bound and a range error.
\<close>

definition Atoi :: "string \<Rightarrow> int \<times> num_err option" where
  "Atoi s =
     (if s = [] then (0, Some ErrSyntax)
      else
        let neg = (hd s = CHR ''-'');
            ds = (if hd s = CHR ''+'' \<or> hd s = CHR ''-'' then tl s else s)
        in if ds = [] \<or> \<not> list_all isDigit ds then (0, Some ErrSyntax)
           else
             let un = int (digitsVal ds);
                 cutoff = (2::int) ^ (IntSize - 1)
             in if \<not> neg \<and> un \<ge> cutoff then (cutoff - 1, Some ErrRange)
                else if neg \<and> un > cutoff then (- cutoff, Some ErrRange)
                else (if neg then - un else un, None))"

text \<open>
  \<^verbatim>\<open>strings.Split(s, sep)\<close> for a separator of one byte, which is how the file calls
  it: one component more than there are separators in \<open>s\<close>.
\<close>

fun Split :: "string \<Rightarrow> char \<Rightarrow> string list" where
  "Split [] sep = [[]]"
| "Split (c # cs) sep =
     (if c = sep then [] # Split cs sep
      else (c # hd (Split cs sep)) # tl (Split cs sep))"

definition lowerByte :: "char \<Rightarrow> char" where
  "lowerByte c =
     (if 65 \<le> (of_char c :: nat) \<and> (of_char c :: nat) \<le> 90
      then char_of ((of_char c :: nat) + 32) else c)"

text \<open>
  \<^verbatim>\<open>strings.ToLower\<close> maps the string rune by rune. ASCII letters become lower case.
  Two runes beyond ASCII have an ASCII lower case: U+0130 (the bytes C4 B0) becomes
  \<open>i\<close> and U+212A (the bytes E2 84 AA) becomes \<open>k\<close>. Every other rune beyond ASCII
  stays beyond ASCII; its bytes are kept here, which is exact for what the file does
  with the result, a comparison with ASCII literals.
\<close>

fun ToLower :: "string \<Rightarrow> string" where
  "ToLower [] = []"
| "ToLower (c # cs) =
     (if c = CHR 0xC4 \<and> take 1 cs = [CHR 0xB0] then CHR ''i'' # ToLower (drop 1 cs)
      else if c = CHR 0xE2 \<and> take 2 cs = [CHR 0x84, CHR 0xAA]
        then CHR ''k'' # ToLower (drop 2 cs)
      else lowerByte c # ToLower cs)"

text \<open>\<^verbatim>\<open>time.Minute\<close>, a \<^verbatim>\<open>time.Duration\<close>: a count of nanoseconds.\<close>

definition Minute :: nat where
  "Minute = 60 * 1000000000"

subsection \<open>Errors\<close>

text \<open>
  The errors the file can return: the \<^verbatim>\<open>*strconv.NumError\<close> of \<^verbatim>\<open>Atoi\<close> (the string that
  failed and why), the message built by \<^verbatim>\<open>fmt.Errorf\<close>, and an error of the remote
  client, which the file passes on as it is.
\<close>

datatype error = NumError string num_err | Errorf string | ClientError string

subsection \<open>The resource data of the host\<close>

datatype attr = AttrString string | AttrBool bool

text \<open>
  \<^verbatim>\<open>schema.ResourceData\<close>: the identity of the resource, its attributes by key (the
  host has filled the defaults of the schema in) and the host's change detection.
\<close>

record ResourceData =
  ident :: string
  attrs :: "string \<rightharpoonup> attr"
  changed :: "string \<Rightarrow> bool"

definition data_Id :: "ResourceData \<Rightarrow> string" where
  "data_Id data = ident data"

definition data_SetId :: "ResourceData \<Rightarrow> string \<Rightarrow> ResourceData" where
  "data_SetId data v = data\<lparr>ident := v\<rparr>"

text \<open>
  \<^verbatim>\<open>data.Get(key).(string)\<close> and \<^verbatim>\<open>data.Get(key).(bool)\<close>: the schema gives every key
  its type, and an attribute that is not set reads as the zero value of its type.
\<close>

definition data_GetString :: "ResourceData \<Rightarrow> string \<Rightarrow> string" where
  "data_GetString data key = (case attrs data key of Some (AttrString v) \<Rightarrow> v | _ \<Rightarrow> [])"

definition data_GetBool :: "ResourceData \<Rightarrow> string \<Rightarrow> bool" where
  "data_GetBool data key = (case attrs data key of Some (AttrBool v) \<Rightarrow> v | _ \<Rightarrow> False)"

definition data_Set :: "ResourceData \<Rightarrow> string \<Rightarrow> attr \<Rightarrow> ResourceData" where
  "data_Set data key v = data\<lparr>attrs := (attrs data)(key \<mapsto> v)\<rparr>"

definition data_HasChange :: "ResourceData \<Rightarrow> string \<Rightarrow> bool" where
  "data_HasChange data key = changed data key"

text \<open>
  Modelled from the spec: \<^verbatim>\<open>resourcePropertyHelper.GetOptionalString\<close> is defined in
  another file of the provider, which is not among the sources. The spec has an optional
  field present when it is non-empty ("first non-empty wins", an empty port is no port
  constraint); the second argument allows the empty string.
\<close>

definition GetOptionalString :: "ResourceData \<Rightarrow> string \<Rightarrow> bool \<Rightarrow> string option" where
  "GetOptionalString data key allowEmpty =
     (case attrs data key of
        Some (AttrString v) \<Rightarrow> if v \<noteq> [] \<or> allowEmpty then Some v else None
      | _ \<Rightarrow> None)"

definition resourceKeyFirewallRuleNetworkDomainID :: string where
  "resourceKeyFirewallRuleNetworkDomainID = ''networkdomain''"

definition resourceKeyFirewallRuleName :: string where
  "resourceKeyFirewallRuleName = ''name''"

definition resourceKeyFirewallRuleAction :: string where
  "resourceKeyFirewallRuleAction = ''action''"

definition resourceKeyFirewallRuleEnabled :: string where
  "resourceKeyFirewallRuleEnabled = ''enabled''"

definition resourceKeyFirewallRulePlacement :: string where
  "resourceKeyFirewallRulePlacement = ''placement''"

definition resourceKeyFirewallRulePlacementRelativeToRuleName :: string where
  "resourceKeyFirewallRulePlacementRelativeToRuleName = ''placement_relative_to''"

definition resourceKeyFirewallRuleIPVersion :: string where
  "resourceKeyFirewallRuleIPVersion = ''ip_version''"

definition resourceKeyFirewallRuleProtocol :: string where
  "resourceKeyFirewallRuleProtocol = ''protocol''"

definition resourceKeyFirewallRuleSourceAddress :: string where
  "resourceKeyFirewallRuleSourceAddress = ''source_address''"

definition resourceKeyFirewallRuleSourceNetwork :: string where
  "resourceKeyFirewallRuleSourceNetwork = ''source_network''"

definition resourceKeyFirewallRuleSourcePort :: string where
  "resourceKeyFirewallRuleSourcePort = ''source_port''"

definition resourceKeyFirewallRuleDestinationAddress :: string where
  "resourceKeyFirewallRuleDestinationAddress = ''destination_address''"

definition resourceKeyFirewallRuleDestinationNetwork :: string where
  "resourceKeyFirewallRuleDestinationNetwork = ''destination_network''"

definition resourceKeyFirewallRuleDestinationPort :: string where
  "resourceKeyFirewallRuleDestinationPort = ''destination_port''"

definition resourceCreateTimeoutFirewallRule :: nat where
  "resourceCreateTimeoutFirewallRule = 30 * Minute"

definition resourceUpdateTimeoutFirewallRule :: nat where
  "resourceUpdateTimeoutFirewallRule = 10 * Minute"

definition resourceDeleteTimeoutFirewallRule :: nat where
  "resourceDeleteTimeoutFirewallRule = 15 * Minute"

subsection \<open>The types of the remote client\<close>

text \<open>
  The scope of a rule as the client library's \<^verbatim>\<open>Match...\<close> methods set it: each method
  is one matching mode, kept here with the arguments it was called with. A fresh
  configuration has no scope yet.
\<close>

datatype firewall_scope =
    ScopeUnset
  | MatchAddressAndPort string "int option"
  | MatchNetworkAndPort string int "int option"
  | MatchAnyAddress "int option"
  | MatchAny

record FirewallRulePlacement =
  Position :: string
  RelativeToRuleName :: "string option"

record FirewallRuleConfiguration =
  Name :: string
  Action :: string
  Placement :: FirewallRulePlacement
  Enabled :: bool
  NetworkDomainID :: string
  IPVersion :: string
  Protocol :: string
  Source :: firewall_scope
  Destination :: firewall_scope

definition MatchSourceAddressAndPort ::
    "FirewallRuleConfiguration \<Rightarrow> string \<Rightarrow> int option \<Rightarrow> FirewallRuleConfiguration" where
  "MatchSourceAddressAndPort rule address port = rule\<lparr>Source := MatchAddressAndPort address port\<rparr>"

definition MatchSourceNetworkAndPort ::
    "FirewallRuleConfiguration \<Rightarrow> string \<Rightarrow> int \<Rightarrow> int option \<Rightarrow> FirewallRuleConfiguration" where
  "MatchSourceNetworkAndPort rule baseAddress prefixSize port =
     rule\<lparr>Source := MatchNetworkAndPort baseAddress prefixSize port\<rparr>"

definition MatchAnySourceAddress ::
    "FirewallRuleConfiguration \<Rightarrow> int option \<Rightarrow> FirewallRuleConfiguration" where
  "MatchAnySourceAddress rule port = rule\<lparr>Source := MatchAnyAddress port\<rparr>"

definition MatchAnySource :: "FirewallRuleConfiguration \<Rightarrow> FirewallRuleConfiguration" where
  "MatchAnySource rule = rule\<lparr>Source := MatchAny\<rparr>"

definition MatchDestinationAddressAndPort ::
    "FirewallRuleConfiguration \<Rightarrow> string \<Rightarrow> int option \<Rightarrow> FirewallRuleConfiguration" where
  "MatchDestinationAddressAndPort rule address port =
     rule\<lparr>Destination := MatchAddressAndPort address port\<rparr>"

definition MatchDestinationNetworkAndPort ::
    "FirewallRuleConfiguration \<Rightarrow> string \<Rightarrow> int \<Rightarrow> int option \<Rightarrow> FirewallRuleConfiguration" where
  "MatchDestinationNetworkAndPort rule baseAddress prefixSize port =
     rule\<lparr>Destination := MatchNetworkAndPort baseAddress prefixSize port\<rparr>"

definition MatchAnyDestinationAddress ::
    "FirewallRuleConfiguration \<Rightarrow> int option \<Rightarrow> FirewallRuleConfiguration" where
  "MatchAnyDestinationAddress rule port = rule\<lparr>Destination := MatchAnyAddress port\<rparr>"

definition MatchAnyDestination :: "FirewallRuleConfiguration \<Rightarrow> FirewallRuleConfiguration" where
  "MatchAnyDestination rule = rule\<lparr>Destination := MatchAny\<rparr>"

text \<open>
  Modelled from the spec: the constants \<^verbatim>\<open>compute.FirewallRuleActionAccept\<close> and
  \<^verbatim>\<open>compute.FirewallRuleActionDrop\<close> belong to the client library, which is not among
  the sources; the spec names the two actions ACCEPT and DROP.
\<close>

definition FirewallRuleActionAccept :: string where
  "FirewallRuleActionAccept = ''ACCEPT''"

definition FirewallRuleActionDrop :: string where
  "FirewallRuleActionDrop = ''DROP''"

text \<open>The remote rule, of which the file reads the \<^verbatim>\<open>Enabled\<close> flag only.\<close>

record FirewallRule =
  RuleID :: string
  RuleEnabled :: bool

datatype resource_type = ResourceTypeFirewallRule

text \<open>
  The client answers each call with an error or a result. A lifecycle function makes
  each call at most once, so an answer that depends on the arguments is as general as
  one that depends on the state of the remote side.
\<close>

record apiClient =
  CreateFirewallRule :: "FirewallRuleConfiguration \<Rightarrow> error + string"
  GetFirewallRule :: "string \<Rightarrow> error + FirewallRule option"
  EditFirewallRule :: "string \<Rightarrow> bool \<Rightarrow> error option"
  DeleteFirewallRule :: "string \<Rightarrow> error option"
  WaitForDeploy :: "resource_type \<Rightarrow> string \<Rightarrow> nat \<Rightarrow> error option"
  WaitForDelete :: "resource_type \<Rightarrow> string \<Rightarrow> nat \<Rightarrow> error option"

record providerState =
  Client :: apiClient

text \<open>
  What a lifecycle function does besides returning, in order: the lock of a network
  domain taken and released, the remote calls, and the writes to the resource data.
\<close>

datatype event =
    Lock string
  | Unlock string
  | CallCreateFirewallRule FirewallRuleConfiguration
  | CallWaitForDeploy resource_type string nat
  | CallGetFirewallRule string
  | CallEditFirewallRule string bool
  | CallDeleteFirewallRule string
  | CallWaitForDelete resource_type string nat
  | SetId string
  | SetAttr string attr

fun isRemoteCall :: "event \<Rightarrow> bool" where
  "isRemoteCall (Lock d) = False"
| "isRemoteCall (Unlock d) = False"
| "isRemoteCall (SetId v) = False"
| "isRemoteCall (SetAttr k v) = False"
| "isRemoteCall e = True"

subsection \<open>Parsing and normalization\<close>

definition normalizeFirewallRuleAction :: "string \<Rightarrow> string" where
  "normalizeFirewallRuleAction action =
     (let lowered = ToLower action
      in if lowered = ''accept'' then FirewallRuleActionAccept
         else if lowered = ''accept_decisively'' then FirewallRuleActionAccept
         else if lowered = ''allow'' then FirewallRuleActionAccept
         else if lowered = ''drop'' then FirewallRuleActionDrop
         else if lowered = ''deny'' then FirewallRuleActionDrop
         else action)"

definition parseFirewallPort :: "string option \<Rightarrow> int option \<times> error option" where
  "parseFirewallPort port =
     (case port of
        None \<Rightarrow> (None, None)
      | Some p \<Rightarrow>
          if p = ''any'' then (None, None)
          else (case Atoi p of
                  (parsedPort, Some err) \<Rightarrow> (None, Some (NumError p err))
                | (parsedPort, None) \<Rightarrow> (Some parsedPort, None)))"

text \<open>
  The results are named in the source, so an early \<^verbatim>\<open>return\<close> gives back what has
  been assigned so far: nothing when the split fails, the base address and what
  \<^verbatim>\<open>Atoi\<close> returned beside its error when the prefix fails.
\<close>

definition parseNetworkAndPrefix :: "string \<Rightarrow> string \<times> int \<times> bool" where
  "parseNetworkAndPrefix networkAndPrefix =
     (let networkComponents = Split networkAndPrefix (CHR ''/'')
      in if length networkComponents \<noteq> 2 then ([], 0, False)
         else
           let baseAddress = networkComponents ! 0
           in (case Atoi (networkComponents ! 1) of
                 (prefixSize, Some err) \<Rightarrow> (baseAddress, prefixSize, False)
               | (prefixSize, None) \<Rightarrow> (baseAddress, prefixSize, True)))"

subsection \<open>Scope resolution\<close>

definition quoted :: "string \<Rightarrow> string" where
  "quoted s = CHR 0x27 # s @ [CHR 0x27]"

definition configureSourceScope ::
    "ResourceData \<Rightarrow> FirewallRuleConfiguration \<Rightarrow> error + FirewallRuleConfiguration" where
  "configureSourceScope propertyHelper configuration =
     (let sourceAddress =
            GetOptionalString propertyHelper resourceKeyFirewallRuleSourceAddress False;
          sourceNetwork =
            GetOptionalString propertyHelper resourceKeyFirewallRuleSourceNetwork False
      in case parseFirewallPort
                (GetOptionalString propertyHelper resourceKeyFirewallRuleSourcePort False) of
           (sourcePort, Some err) \<Rightarrow> Inl err
         | (sourcePort, None) \<Rightarrow>
             (case sourceAddress of
                Some address \<Rightarrow> Inr (MatchSourceAddressAndPort configuration address sourcePort)
              | None \<Rightarrow>
                  (case sourceNetwork of
                     Some network \<Rightarrow>
                       (case parseNetworkAndPrefix network of
                          (baseAddress, prefixSize, ok) \<Rightarrow>
                            if \<not> ok then
                              Inl (Errorf (''Source network '' @ quoted network
                                @ '' for firewall rule ''
                                @ quoted (data_GetString propertyHelper resourceKeyFirewallRuleName)
                                @ '' is invalid (must be '' @ quoted ''BaseAddress/PrefixSize''
                                @ '')''))
                            else Inr (MatchSourceNetworkAndPort configuration
                                        baseAddress prefixSize sourcePort))
                   | None \<Rightarrow>
                       (case sourcePort of
                          Some port \<Rightarrow> Inr (MatchAnySourceAddress configuration sourcePort)
                        | None \<Rightarrow> Inr (MatchAnySource configuration)))))"

definition configureDestinationScope ::
    "ResourceData \<Rightarrow> FirewallRuleConfiguration \<Rightarrow> error + FirewallRuleConfiguration" where
  "configureDestinationScope propertyHelper configuration =
     (let destinationNetwork =
            GetOptionalString propertyHelper resourceKeyFirewallRuleDestinationNetwork False;
          destinationAddress =
            GetOptionalString propertyHelper resourceKeyFirewallRuleDestinationAddress False
      in case parseFirewallPort
                (GetOptionalString propertyHelper resourceKeyFirewallRuleDestinationPort False) of
           (destinationPort, Some err) \<Rightarrow> Inl err
         | (destinationPort, None) \<Rightarrow>
             (case destinationAddress of
                Some address \<Rightarrow>
                  Inr (MatchDestinationAddressAndPort configuration address destinationPort)
              | None \<Rightarrow>
                  (case destinationNetwork of
                     Some network \<Rightarrow>
                       (case parseNetworkAndPrefix network of
                          (baseAddress, prefixSize, ok) \<Rightarrow>
                            if \<not> ok then
                              Inl (Errorf (''Source network '' @ quoted network
                                @ '' for firewall rule ''
                                @ quoted (data_GetString propertyHelper resourceKeyFirewallRuleName)
                                @ '' is invalid (must be '' @ quoted ''BaseAddress/PrefixSize''
                                @ '')''))
                            else Inr (MatchDestinationNetworkAndPort configuration
                                        baseAddress prefixSize destinationPort))
                   | None \<Rightarrow>
                       (case destinationPort of
                          Some port \<Rightarrow>
                            Inr (MatchAnyDestinationAddress configuration destinationPort)
                        | None \<Rightarrow> Inr (MatchAnyDestination configuration)))))"

subsection \<open>The lifecycle functions\<close>

text \<open>
  The configuration that \<^verbatim>\<open>resourceFirewallRuleCreate\<close> builds before it resolves the
  scopes: the literal of lines 157 to 178, then the assignment of line 180.

  \<^verbatim>\<open>strings.ToUpper\<close> upper-cases every rune of Unicode; it is not written out. The
  function is a parameter of the configuration and of create, and what is proved holds
  for every function in its place.
\<close>

definition newConfiguration ::
    "(string \<Rightarrow> string) \<Rightarrow> ResourceData \<Rightarrow> FirewallRuleConfiguration" where
  "newConfiguration ToUpper data =
     (let configuration =
            \<lparr> Name = data_GetString data resourceKeyFirewallRuleName,
              Action = normalizeFirewallRuleAction
                         (data_GetString data resourceKeyFirewallRuleAction),
              Placement =
                \<lparr> Position = ToUpper (data_GetString data resourceKeyFirewallRulePlacement),
                  RelativeToRuleName =
                    GetOptionalString data
                      resourceKeyFirewallRulePlacementRelativeToRuleName False \<rparr>,
              Enabled = data_GetBool data resourceKeyFirewallRuleEnabled,
              NetworkDomainID = data_GetString data resourceKeyFirewallRuleNetworkDomainID,
              IPVersion = ToUpper (data_GetString data resourceKeyFirewallRuleIPVersion),
              Protocol = ToUpper (data_GetString data resourceKeyFirewallRuleProtocol),
              Source = ScopeUnset,
              Destination = ScopeUnset \<rparr>
      in configuration\<lparr>Action := data_GetString data resourceKeyFirewallRuleAction\<rparr>)"

definition resourceFirewallRuleCreate ::
    "(string \<Rightarrow> string) \<Rightarrow> ResourceData \<Rightarrow> providerState
      \<Rightarrow> error option \<times> ResourceData \<times> event list" where
  "resourceFirewallRuleCreate ToUpper data provider =
     (case configureSourceScope data (newConfiguration ToUpper data) of
        Inl err \<Rightarrow> (Some err, data, [])
      | Inr configuration1 \<Rightarrow>
          (case configureDestinationScope data configuration1 of
             Inl err \<Rightarrow> (Some err, data, [])
           | Inr configuration \<Rightarrow>
               (let apiClient = Client provider;
                    domainLock = NetworkDomainID configuration
                in case CreateFirewallRule apiClient configuration of
                     Inl err \<Rightarrow>
                       (Some err, data,
                        [Lock domainLock, CallCreateFirewallRule configuration,
                         Unlock domainLock])
                   | Inr ruleID \<Rightarrow>
                       (WaitForDeploy apiClient ResourceTypeFirewallRule ruleID
                          resourceCreateTimeoutFirewallRule,
                        data_SetId data ruleID,
                        [Lock domainLock, CallCreateFirewallRule configuration,
                         SetId ruleID,
                         CallWaitForDeploy ResourceTypeFirewallRule ruleID
                           resourceCreateTimeoutFirewallRule,
                         Unlock domainLock]))))"

definition resourceFirewallRuleRead ::
    "ResourceData \<Rightarrow> providerState \<Rightarrow> error option \<times> ResourceData \<times> event list" where
  "resourceFirewallRuleRead data provider =
     (let id = data_Id data;
          apiClient = Client provider
      in case GetFirewallRule apiClient id of
           Inl err \<Rightarrow> (Some err, data, [CallGetFirewallRule id])
         | Inr None \<Rightarrow> (None, data_SetId data [], [CallGetFirewallRule id, SetId []])
         | Inr (Some rule) \<Rightarrow>
             (None,
              data_Set data resourceKeyFirewallRuleEnabled (AttrBool (RuleEnabled rule)),
              [CallGetFirewallRule id,
               SetAttr resourceKeyFirewallRuleEnabled (AttrBool (RuleEnabled rule))]))"

definition resourceFirewallRuleUpdate ::
    "ResourceData \<Rightarrow> providerState \<Rightarrow> error option \<times> ResourceData \<times> event list" where
  "resourceFirewallRuleUpdate data provider =
     (let id = data_Id data;
          networkDomainID = data_GetString data resourceKeyFirewallRuleNetworkDomainID;
          apiClient = Client provider
      in if data_HasChange data resourceKeyFirewallRuleEnabled then
           (let enable = data_GetBool data resourceKeyFirewallRuleEnabled
            in case EditFirewallRule apiClient id enable of
                 Some err \<Rightarrow>
                   (Some err, data,
                    [Lock networkDomainID, CallEditFirewallRule id enable,
                     Unlock networkDomainID])
               | None \<Rightarrow>
                   (None, data,
                    [Lock networkDomainID, CallEditFirewallRule id enable,
                     Unlock networkDomainID]))
         else (None, data, [Lock networkDomainID, Unlock networkDomainID]))"

definition resourceFirewallRuleDelete ::
    "ResourceData \<Rightarrow> providerState \<Rightarrow> error option \<times> ResourceData \<times> event list" where
  "resourceFirewallRuleDelete data provider =
     (let id = data_Id data;
          networkDomainID = data_GetString data resourceKeyFirewallRuleNetworkDomainID;
          apiClient = Client provider
      in case DeleteFirewallRule apiClient id of
           Some err \<Rightarrow>
             (Some err, data,
              [Lock networkDomainID, CallDeleteFirewallRule id, Unlock networkDomainID])
         | None \<Rightarrow>
             (WaitForDelete apiClient ResourceTypeFirewallRule id
                resourceDeleteTimeoutFirewallRule,
              data,
              [Lock networkDomainID, CallDeleteFirewallRule id,
               CallWaitForDelete ResourceTypeFirewallRule id
                 resourceDeleteTimeoutFirewallRule,
               Unlock networkDomainID]))"

subsection \<open>Notions of the specification\<close>

text \<open>
  A base-10 integer as the specification means it for a prefix size or a port: an
  optional sign, then one decimal digit or more; and the integer such a string denotes.
\<close>

definition signless :: "string \<Rightarrow> string" where
  "signless s =
     (case s of [] \<Rightarrow> [] | c # cs \<Rightarrow> if c = CHR ''+'' \<or> c = CHR ''-'' then cs else s)"

definition isBase10Integer :: "string \<Rightarrow> bool" where
  "isBase10Integer s = (signless s \<noteq> [] \<and> list_all isDigit (signless s))"

definition base10Value :: "string \<Rightarrow> int" where
  "base10Value s =
     (case s of
        [] \<Rightarrow> 0
      | c # cs \<Rightarrow> if c = CHR ''-'' then - int (digitsVal cs) else int (digitsVal (signless s)))"

definition inIntRange :: "int \<Rightarrow> bool" where
  "inIntRange n = (- (2 ^ (IntSize - 1)) \<le> n \<and> n < 2 ^ (IntSize - 1))"

text \<open>
  A case variant of a lower-case word: the same bytes up to the case of the ASCII
  letters.
\<close>

definition caseVariantOf :: "string \<Rightarrow> string \<Rightarrow> bool" where
  "caseVariantOf word s = (map lowerByte s = word)"

definition isASCII :: "char \<Rightarrow> bool" where
  "isASCII c = ((of_char c :: nat) < 128)"

text \<open>
  The spellings of a word of lower-case letters and underscores that Go's lower-casing
  takes to the word: every letter in either case, an \<open>i\<close> also as the rune U+0130
  (the bytes C4 B0) and a \<open>k\<close> also as the rune U+212A (the bytes E2 84 AA).
\<close>

definition isLowerLetter :: "char \<Rightarrow> bool" where
  "isLowerLetter c = (97 \<le> (of_char c :: nat) \<and> (of_char c :: nat) \<le> 122)"

definition isWordChar :: "char \<Rightarrow> bool" where
  "isWordChar c = (isLowerLetter c \<or> c = CHR ''_'')"

definition upperByte :: "char \<Rightarrow> char" where
  "upperByte c =
     (if 97 \<le> (of_char c :: nat) \<and> (of_char c :: nat) \<le> 122
      then char_of ((of_char c :: nat) - 32) else c)"

definition spellings :: "char \<Rightarrow> string list" where
  "spellings c =
     [[c]]
     @ (if isLowerLetter c then [[upperByte c]] else [])
     @ (if c = CHR ''i'' then [[CHR 0xC4, CHR 0xB0]] else [])
     @ (if c = CHR ''k'' then [[CHR 0xE2, CHR 0x84, CHR 0xAA]] else [])"

fun spelledAs :: "string \<Rightarrow> string \<Rightarrow> bool" where
  "spelledAs [] s = (s = [])"
| "spelledAs (c # cs) s =
     list_ex (\<lambda>v. take (length v) s = v \<and> spelledAs cs (drop (length v) s)) (spellings c)"

text \<open>The four matching modes of a scope, and the mode of a scope that has been set.\<close>

datatype matching_mode = AddressAndPort | NetworkAndPort | AnyAddressWithPort | AnyAddressAnyPort

fun scopeMode :: "firewall_scope \<Rightarrow> matching_mode option" where
  "scopeMode ScopeUnset = None"
| "scopeMode (MatchAddressAndPort address port) = Some AddressAndPort"
| "scopeMode (MatchNetworkAndPort baseAddress prefixSize port) = Some NetworkAndPort"
| "scopeMode (MatchAnyAddress port) = Some AnyAddressWithPort"
| "scopeMode MatchAny = Some AnyAddressAnyPort"

text \<open>The mode that scope resolution selects, \<open>None\<close> when it returns an error.\<close>

definition sourceMode :: "ResourceData \<Rightarrow> FirewallRuleConfiguration \<Rightarrow> matching_mode option" where
  "sourceMode data configuration =
     (case configureSourceScope data configuration of
        Inl err \<Rightarrow> None
      | Inr configuration' \<Rightarrow> scopeMode (Source configuration'))"

definition destinationMode ::
    "ResourceData \<Rightarrow> FirewallRuleConfiguration \<Rightarrow> matching_mode option" where
  "destinationMode data configuration =
     (case configureDestinationScope data configuration of
        Inl err \<Rightarrow> None
      | Inr configuration' \<Rightarrow> scopeMode (Destination configuration'))"

text \<open>
  The priority order in the words of the specification: the first of address, network
  and port that is present decides.
\<close>

definition specScopeMode :: "'a option \<Rightarrow> 'b option \<Rightarrow> 'c option \<Rightarrow> matching_mode" where
  "specScopeMode address network port =
     (if address \<noteq> None then AddressAndPort
      else if network \<noteq> None then NetworkAndPort
      else if port \<noteq> None then AnyAddressWithPort
      else AnyAddressAnyPort)"

text \<open>
  The fields of a scope can be resolved when the port parses and the network, where
  no address is given and the network is the one used, parses too.
\<close>

definition resolvable :: "string option \<Rightarrow> string option \<Rightarrow> string option \<Rightarrow> bool" where
  "resolvable address network port =
     (snd (parseFirewallPort port) = None
      \<and> (address = None \<longrightarrow>
           (case network of None \<Rightarrow> True | Some n \<Rightarrow> snd (snd (parseNetworkAndPrefix n)))))"

abbreviation sourceAddressOf :: "ResourceData \<Rightarrow> string option" where
  "sourceAddressOf data \<equiv> GetOptionalString data resourceKeyFirewallRuleSourceAddress False"

abbreviation sourceNetworkOf :: "ResourceData \<Rightarrow> string option" where
  "sourceNetworkOf data \<equiv> GetOptionalString data resourceKeyFirewallRuleSourceNetwork False"

abbreviation sourcePortOf :: "ResourceData \<Rightarrow> string option" where
  "sourcePortOf data \<equiv> GetOptionalString data resourceKeyFirewallRuleSourcePort False"

abbreviation destinationAddressOf :: "ResourceData \<Rightarrow> string option" where
  "destinationAddressOf data \<equiv>
     GetOptionalString data resourceKeyFirewallRuleDestinationAddress False"

abbreviation destinationNetworkOf :: "ResourceData \<Rightarrow> string option" where
  "destinationNetworkOf data \<equiv>
     GetOptionalString data resourceKeyFirewallRuleDestinationNetwork False"

abbreviation destinationPortOf :: "ResourceData \<Rightarrow> string option" where
  "destinationPortOf data \<equiv>
     GetOptionalString data resourceKeyFirewallRuleDestinationPort False"

text \<open>The configurations that a sequence of events hands to the remote create call.\<close>

fun createdConfigurations :: "event list \<Rightarrow> FirewallRuleConfiguration list" where
  "createdConfigurations [] = []"
| "createdConfigurations (CallCreateFirewallRule configuration # es) =
     configuration # createdConfigurations es"
| "createdConfigurations (e # es) = createdConfigurations es"

subsection \<open>Example inputs\<close>

text \<open>
  A rule named \<open>rule1\<close> in the network domain \<open>domain1\<close>, declared with the action
  \<open>allow\<close> and with the scope fields given; the host reports the change given.
\<close>

definition ruleData :: "(string \<times> attr) list \<Rightarrow> bool \<Rightarrow> ResourceData" where
  "ruleData scopeFields enabledChanged =
     \<lparr> ident = ''rule-0'',
       attrs = map_of
         (scopeFields @
          [(''networkdomain'', AttrString ''domain1''),
           (''name'', AttrString ''rule1''),
           (''action'', AttrString ''allow''),
           (''enabled'', AttrBool True),
           (''placement'', AttrString ''first''),
           (''ip_version'', AttrString ''ipv4''),
           (''protocol'', AttrString ''tcp'')]),
       changed = (\<lambda>key. key = ''enabled'' \<and> enabledChanged) \<rparr>"

text \<open>The end-to-end example of the specification.\<close>

definition exampleData :: ResourceData where
  "exampleData =
     ruleData
       [(''source_address'', AttrString ''192.168.1.1''),
        (''source_port'', AttrString ''8080''),
        (''destination_network'', AttrString ''10.0.0.0/24''),
        (''destination_port'', AttrString ''any'')] False"

text \<open>
  A client whose create call answers with the identifier \<open>rule-1\<close>, whose deployment
  wait fails, and which knows the rules \<open>rule-0\<close> (disabled remotely) and no other.
\<close>

definition exampleClient :: apiClient where
  "exampleClient =
     \<lparr> CreateFirewallRule = (\<lambda>configuration. Inr ''rule-1''),
       GetFirewallRule =
         (\<lambda>id. if id = ''rule-0'' then Inr (Some \<lparr> RuleID = id, RuleEnabled = False \<rparr>)
               else Inr None),
       EditFirewallRule = (\<lambda>id enable. None),
       DeleteFirewallRule = (\<lambda>id. None),
       WaitForDeploy = (\<lambda>resourceType id timeout. Some (ClientError ''timed out'')),
       WaitForDelete = (\<lambda>resourceType id timeout. None) \<rparr>"

definition exampleProvider :: providerState where
  "exampleProvider = \<lparr> Client = exampleClient \<rparr>"

text \<open>
  An upper-casing function for the examples, whose fields are ASCII text: the letters a
  to z become upper case, as \<^verbatim>\<open>strings.ToUpper\<close> has them.
\<close>

definition asciiToUpper :: "string \<Rightarrow> string" where
  "asciiToUpper s = map upperByte s"

text \<open>
  The action \<open>ACCEPT_DECISIVELY\<close> written with the rune U+0130 for each \<open>I\<close>.
\<close>

definition dottedAcceptDecisively :: string where
  "dottedAcceptDecisively =
     ''ACCEPT_DEC'' @ [CHR 0xC4, CHR 0xB0] @ ''S'' @ [CHR 0xC4, CHR 0xB0] @ ''VELY''"

section \<open>Properties\<close>

lemmas resourceKey_defs =
  resourceKeyFirewallRuleNetworkDomainID_def resourceKeyFirewallRuleName_def
  resourceKeyFirewallRuleAction_def resourceKeyFirewallRuleEnabled_def
  resourceKeyFirewallRulePlacement_def
  resourceKeyFirewallRulePlacementRelativeToRuleName_def
  resourceKeyFirewallRuleIPVersion_def resourceKeyFirewallRuleProtocol_def
  resourceKeyFirewallRuleSourceAddress_def resourceKeyFirewallRuleSourceNetwork_def
  resourceKeyFirewallRuleSourcePort_def resourceKeyFirewallRuleDestinationAddress_def
  resourceKeyFirewallRuleDestinationNetwork_def resourceKeyFirewallRuleDestinationPort_def

subsection \<open>Library functions\<close>

lemmas parse_defs =
  Atoi_def isDigit_def digitsVal_def digitVal_def IntSize_def signless_def
  isBase10Integer_def base10Value_def inIntRange_def parseFirewallPort_def
  parseNetworkAndPrefix_def

lemma Split_length: "length (Split s sep) = Suc (count_list s sep)"
  by (induction s) auto

lemma Atoi_syntax: "\<not> isBase10Integer s \<Longrightarrow> Atoi s = (0, Some ErrSyntax)"
  by (cases s) (auto simp: Atoi_def isBase10Integer_def signless_def Let_def)

lemma Atoi_value:
  assumes "isBase10Integer s" and "inIntRange (base10Value s)"
  shows "Atoi s = (base10Value s, None)"
  using assms
  by (cases s)
    (auto simp: Atoi_def isBase10Integer_def signless_def base10Value_def Let_def
      inIntRange_def IntSize_def)



lemma isBase10Integer_no_slash: "isBase10Integer s \<Longrightarrow> CHR ''/'' \<notin> set s"
proof
  assume b: "isBase10Integer s" and m: "CHR ''/'' \<in> set s"
  have d: "\<not> isDigit (CHR ''/'')"
    by (simp add: isDigit_def)
  show False
  proof (cases s)
    case Nil
    with m show False by simp
  next
    case (Cons c cs)
    show False
    proof (cases "c = CHR ''+'' \<or> c = CHR ''-''")
      case True
      with b Cons have "list_all isDigit cs"
        by (auto simp: isBase10Integer_def signless_def)
      moreover from m Cons True have "CHR ''/'' \<in> set cs"
        by auto
      ultimately show False
        using d by (auto simp: list_all_iff)
    next
      case False
      with b Cons have "list_all isDigit s"
        by (auto simp: isBase10Integer_def signless_def)
      with m d show False
        by (auto simp: list_all_iff)
    qed
  qed
qed

lemma lowerByte_ascii: "isASCII (lowerByte c) \<Longrightarrow> isASCII c"
  by (auto simp: lowerByte_def isASCII_def split: if_splits)

lemma ToLower_ascii: "list_all isASCII s \<Longrightarrow> ToLower s = map lowerByte s"
proof (induction s)
  case Nil
  then show ?case by simp
next
  case (Cons c cs)
  then have "c \<noteq> CHR 0xC4" and "c \<noteq> CHR 0xE2"
    by (auto simp: isASCII_def)
  with Cons show ?case by simp
qed

lemma caseVariantOf_ToLower:
  assumes "caseVariantOf word s" and "list_all isASCII word"
  shows "ToLower s = word"
proof -
  from assms have "list_all isASCII (map lowerByte s)"
    by (simp add: caseVariantOf_def)
  then have "list_all isASCII s"
    by (induction s) (auto dest: lowerByte_ascii)
  then show ?thesis
    using assms(1) by (simp add: ToLower_ascii caseVariantOf_def)
qed

lemma char_eq_via_nat: "(a = b) = ((of_char a :: nat) = of_char b)"
  by simp

lemma of_char_lowerByte:
  assumes "65 \<le> (of_char c :: nat)" and "(of_char c :: nat) \<le> 90"
  shows "(of_char (lowerByte c) :: nat) = of_char c + 32"
proof -
  from assms have "(of_char c :: nat) + 32 < 256"
    by arith
  then have "((of_char c :: nat) + 32) mod 256 = of_char c + 32"
    by (rule mod_less)
  with assms show ?thesis
    by (simp add: lowerByte_def)
qed

lemma of_char_upperByte:
  assumes "isLowerLetter x"
  shows "(of_char (upperByte x) :: nat) = of_char x - 32"
proof -
  from assms have "(of_char x :: nat) - 32 < 256"
    unfolding isLowerLetter_def by arith
  then have "((of_char x :: nat) - 32) mod 256 = of_char x - 32"
    by (rule mod_less)
  with assms show ?thesis
    by (simp add: upperByte_def isLowerLetter_def)
qed

lemma lowerByte_eq_wordChar:
  assumes "isWordChar x"
  shows "(lowerByte c = x) = (c = x \<or> (isLowerLetter x \<and> c = upperByte x))"
proof (cases "65 \<le> (of_char c :: nat) \<and> (of_char c :: nat) \<le> 90")
  case True
  then have l: "(of_char (lowerByte c) :: nat) = of_char c + 32"
    by (simp add: of_char_lowerByte)
  have low: "(lowerByte c = x) = ((of_char c :: nat) + 32 = of_char x)"
    by (subst char_eq_via_nat) (simp only: l)
  have cx: "c \<noteq> x"
    using True assms by (auto simp: isWordChar_def isLowerLetter_def)
  show ?thesis
  proof (cases "isLowerLetter x")
    case lx: True
    have "(c = upperByte x) = ((of_char c :: nat) = of_char x - 32)"
      by (subst char_eq_via_nat) (simp only: of_char_upperByte [OF lx])
    also have "\<dots> = ((of_char c :: nat) + 32 = of_char x)"
      using lx by (auto simp: isLowerLetter_def)
    finally show ?thesis
      using lx cx by (simp add: low)
  next
    case False
    with assms have "x = CHR ''_''"
      by (simp add: isWordChar_def)
    then have "(of_char x :: nat) = 95"
      by simp
    with True have "(of_char c :: nat) + 32 \<noteq> of_char x"
      by arith
    with False cx show ?thesis
      by (simp add: low)
  qed
next
  case False
  then have l: "lowerByte c = c"
    by (auto simp: lowerByte_def)
  have "c \<noteq> upperByte x" if lx: "isLowerLetter x"
  proof
    assume e: "c = upperByte x"
    then have "(of_char c :: nat) = of_char x - 32"
      by (simp add: of_char_upperByte [OF lx])
    with lx False show False
      unfolding isLowerLetter_def by arith
  qed
  then show ?thesis
    by (auto simp: l)
qed

lemma spellings_nonempty: "v \<in> set (spellings c) \<Longrightarrow> v \<noteq> []"
  by (auto simp: spellings_def split: if_splits)

lemma spelledAs_Nil: "spelledAs w [] = (w = [])"
  by (cases w) (auto simp: list_ex_iff dest: spellings_nonempty)

lemma wordChar_not_lead:
  assumes "isWordChar x"
  shows "x \<noteq> CHR 0xC4" "x \<noteq> CHR 0xE2" "upperByte x \<noteq> CHR 0xC4" "upperByte x \<noteq> CHR 0xE2"
proof -
  have a: "(of_char x :: nat) \<le> 122"
    using assms by (auto simp: isWordChar_def isLowerLetter_def)
  have b: "(of_char (upperByte x) :: nat) \<le> 122"
    using a by (cases "isLowerLetter x") (simp_all add: of_char_upperByte, simp add: upperByte_def isLowerLetter_def)
  show "x \<noteq> CHR 0xC4" "x \<noteq> CHR 0xE2"
    using a by auto
  show "upperByte x \<noteq> CHR 0xC4" "upperByte x \<noteq> CHR 0xE2"
    using b by auto
qed

lemma take_drop_split:
  "(take (length v) s = v \<and> P (drop (length v) s)) = (\<exists>r. s = v @ r \<and> P r)"
proof
  assume h: "take (length v) s = v \<and> P (drop (length v) s)"
  have "s = take (length v) s @ drop (length v) s"
    by simp
  with h have "s = v @ drop (length v) s"
    by simp
  with h show "\<exists>r. s = v @ r \<and> P r"
    by blast
next
  assume "\<exists>r. s = v @ r \<and> P r"
  then show "take (length v) s = v \<and> P (drop (length v) s)"
    by auto
qed

lemma spelledAs_Cons:
  "spelledAs (x # w) s =
     ((\<exists>r. s = x # r \<and> spelledAs w r)
      \<or> (isLowerLetter x \<and> (\<exists>r. s = upperByte x # r \<and> spelledAs w r))
      \<or> (x = CHR ''i'' \<and> (\<exists>r. s = CHR 0xC4 # CHR 0xB0 # r \<and> spelledAs w r))
      \<or> (x = CHR ''k'' \<and> (\<exists>r. s = CHR 0xE2 # CHR 0x84 # CHR 0xAA # r \<and> spelledAs w r)))"
  unfolding spelledAs.simps take_drop_split
  by (auto simp: spellings_def)

lemma ToLower_spelledAs:
  "list_all isWordChar w \<Longrightarrow> (ToLower s = w) = spelledAs w s"
proof (induction s arbitrary: w rule: ToLower.induct)
  case 1
  show ?case
    by (auto simp: spelledAs_Nil)
next
  case (2 c cs)
  show ?case
  proof (cases w)
    case Nil
    then show ?thesis by simp
  next
    case (Cons x w')
    with "2.prems" have wx: "isWordChar x" and ww: "list_all isWordChar w'"
      by simp_all
    note nl = wordChar_not_lead [OF wx]
    consider (i) "c = CHR 0xC4 \<and> take 1 cs = [CHR 0xB0]"
      | (k) "\<not> (c = CHR 0xC4 \<and> take 1 cs = [CHR 0xB0])"
            "c = CHR 0xE2 \<and> take 2 cs = [CHR 0x84, CHR 0xAA]"
      | (b) "\<not> (c = CHR 0xC4 \<and> take 1 cs = [CHR 0xB0])"
            "\<not> (c = CHR 0xE2 \<and> take 2 cs = [CHR 0x84, CHR 0xAA])"
      by blast
    then show ?thesis
    proof cases
      case i
      then obtain r where cs: "cs = CHR 0xB0 # r"
        by (cases cs) auto
      have ih: "(ToLower r = w') = spelledAs w' r"
        using "2.IH"(1) [of w'] i ww by (simp add: cs)
      from i have "(ToLower (c # cs) = w) = (x = CHR ''i'' \<and> ToLower r = w')"
        by (auto simp: Cons cs)
      also have "\<dots> = (x = CHR ''i'' \<and> spelledAs w' r)"
        by (simp only: ih)
      also have "\<dots> = spelledAs (x # w') (c # cs)"
        using i nl by (auto simp: spelledAs_Cons cs simp del: spelledAs.simps)
      finally show ?thesis
        by (simp only: Cons)
    next
      case k
      then obtain r where cs: "cs = CHR 0x84 # CHR 0xAA # r"
        by (cases cs; cases "tl cs") auto
      have ih: "(ToLower r = w') = spelledAs w' r"
        using "2.IH"(2) [of w'] k ww by (simp add: cs)
      from k have "(ToLower (c # cs) = w) = (x = CHR ''k'' \<and> ToLower r = w')"
        by (auto simp: Cons cs)
      also have "\<dots> = (x = CHR ''k'' \<and> spelledAs w' r)"
        by (simp only: ih)
      also have "\<dots> = spelledAs (x # w') (c # cs)"
        using k nl by (auto simp: spelledAs_Cons cs simp del: spelledAs.simps)
      finally show ?thesis
        by (simp only: Cons)
    next
      case b
      then have ih: "(ToLower cs = w') = spelledAs w' cs"
        using "2.IH"(3) ww by simp
      from b have "(ToLower (c # cs) = w) = (lowerByte c = x \<and> ToLower cs = w')"
        by (auto simp: Cons)
      also have "\<dots> = ((c = x \<or> (isLowerLetter x \<and> c = upperByte x)) \<and> spelledAs w' cs)"
        by (simp only: lowerByte_eq_wordChar [OF wx] ih)
      also have "\<dots> = spelledAs (x # w') (c # cs)"
        using b by (auto simp: spelledAs_Cons simp del: spelledAs.simps)
      finally show ?thesis
        by (simp only: Cons)
    qed
  qed
qed

lemma Split_no_sep: "sep \<notin> set s \<Longrightarrow> Split s sep = [s]"
  by (induction s) auto

lemma Split_append: "sep \<notin> set a \<Longrightarrow> Split (a @ sep # b) sep = a # Split b sep"
  by (induction a) auto

subsection \<open>Parsing a network\<close>

text \<open>
  C4. \<^verbatim>\<open>parseNetworkAndPrefix\<close> fails, with \<open>ok\<close> false, for every string that does not
  split on the slash into exactly two components (that is, does not hold exactly one
  slash), and for every string whose component after the slash is not a base-10 integer.
  A well-formed string, a base address without a slash, then a slash, then a base-10
  integer in the range of \<^verbatim>\<open>int\<close>, gives that base address, the value of the integer
  and \<open>ok\<close> true; so \<open>10.0.0.0/24\<close> gives the base address \<open>10.0.0.0\<close>, the prefix size
  24 and \<open>ok\<close> true.
\<close>

theorem parseNetworkAndPrefix_spec:
  "(length (Split s (CHR ''/'')) \<noteq> 2 \<longrightarrow> \<not> snd (snd (parseNetworkAndPrefix s)))
   \<and> (count_list s (CHR ''/'') \<noteq> 1 \<longrightarrow> \<not> snd (snd (parseNetworkAndPrefix s)))
   \<and> (length (Split s (CHR ''/'')) = 2 \<and> \<not> isBase10Integer (Split s (CHR ''/'') ! 1)
        \<longrightarrow> \<not> snd (snd (parseNetworkAndPrefix s)))
   \<and> (CHR ''/'' \<notin> set baseAddress \<and> isBase10Integer prefix \<and> inIntRange (base10Value prefix)
        \<longrightarrow> parseNetworkAndPrefix (baseAddress @ ''/'' @ prefix)
              = (baseAddress, base10Value prefix, True))
   \<and> (length (Split s (CHR ''/'')) = 2 \<and> isBase10Integer (Split s (CHR ''/'') ! 1)
        \<and> inIntRange (base10Value (Split s (CHR ''/'') ! 1))
        \<longrightarrow> parseNetworkAndPrefix s
              = (Split s (CHR ''/'') ! 0, base10Value (Split s (CHR ''/'') ! 1), True))
   \<and> parseNetworkAndPrefix ''10.0.0.0/24'' = (''10.0.0.0'', 24, True)"
proof (intro conjI impI)
  assume "length (Split s (CHR ''/'')) \<noteq> 2"
  then show "\<not> snd (snd (parseNetworkAndPrefix s))"
    by (simp add: parseNetworkAndPrefix_def)
next
  assume "count_list s (CHR ''/'') \<noteq> 1"
  then show "\<not> snd (snd (parseNetworkAndPrefix s))"
    by (simp add: parseNetworkAndPrefix_def Split_length)
next
  assume "length (Split s (CHR ''/'')) = 2 \<and> \<not> isBase10Integer (Split s (CHR ''/'') ! 1)"
  then show "\<not> snd (snd (parseNetworkAndPrefix s))"
    by (simp add: parseNetworkAndPrefix_def Let_def Atoi_syntax)
next
  assume h: "CHR ''/'' \<notin> set baseAddress \<and> isBase10Integer prefix
             \<and> inIntRange (base10Value prefix)"
  then have "CHR ''/'' \<notin> set prefix"
    by (simp add: isBase10Integer_no_slash)
  with h have "Split (baseAddress @ ''/'' @ prefix) (CHR ''/'') = [baseAddress, prefix]"
    by (simp add: Split_append Split_no_sep)
  with h show "parseNetworkAndPrefix (baseAddress @ ''/'' @ prefix)
                 = (baseAddress, base10Value prefix, True)"
    by (simp add: parseNetworkAndPrefix_def Atoi_value)
next
  assume "length (Split s (CHR ''/'')) = 2 \<and> isBase10Integer (Split s (CHR ''/'') ! 1)
          \<and> inIntRange (base10Value (Split s (CHR ''/'') ! 1))"
  then show "parseNetworkAndPrefix s
               = (Split s (CHR ''/'') ! 0, base10Value (Split s (CHR ''/'') ! 1), True)"
    by (simp add: parseNetworkAndPrefix_def Let_def Atoi_value)
next
  show "parseNetworkAndPrefix ''10.0.0.0/24'' = (''10.0.0.0'', 24, True)"
    by (simp add: parse_defs)
qed

theorem parseNetworkAndPrefix_spec_witness:
  "length (Split ''10.0.0.0/24/1'' (CHR ''/'')) \<noteq> 2
   \<and> \<not> snd (snd (parseNetworkAndPrefix ''10.0.0.0/24/1''))
   \<and> count_list ''10.0.0.0'' (CHR ''/'') \<noteq> 1
   \<and> \<not> snd (snd (parseNetworkAndPrefix ''10.0.0.0''))
   \<and> length (Split ''10.0.0.0/x'' (CHR ''/'')) = 2
   \<and> \<not> isBase10Integer (Split ''10.0.0.0/x'' (CHR ''/'') ! 1)
   \<and> \<not> snd (snd (parseNetworkAndPrefix ''10.0.0.0/x''))
   \<and> CHR ''/'' \<notin> set ''192.168.0.0'' \<and> isBase10Integer ''16''
   \<and> inIntRange (base10Value ''16'')
   \<and> parseNetworkAndPrefix ''192.168.0.0/16'' = (''192.168.0.0'', 16, True)
   \<and> length (Split ''fd00::/8'' (CHR ''/'')) = 2
   \<and> isBase10Integer (Split ''fd00::/8'' (CHR ''/'') ! 1)
   \<and> inIntRange (base10Value (Split ''fd00::/8'' (CHR ''/'') ! 1))
   \<and> parseNetworkAndPrefix ''fd00::/8'' = (''fd00::'', 8, True)"
proof -
  have a: "length (Split ''10.0.0.0/24/1'' (CHR ''/'')) \<noteq> 2" by simp
  have b: "count_list ''10.0.0.0'' (CHR ''/'') \<noteq> 1" by simp
  have c: "length (Split ''10.0.0.0/x'' (CHR ''/'')) = 2" by simp
  have d: "\<not> isBase10Integer (Split ''10.0.0.0/x'' (CHR ''/'') ! 1)"
    by (simp add: parse_defs)
  have e: "CHR ''/'' \<notin> set ''192.168.0.0'' \<and> isBase10Integer ''16''
           \<and> inIntRange (base10Value ''16'')"
    by (simp add: parse_defs)
  have ev: "base10Value ''16'' = 16" "''192.168.0.0'' @ ''/'' @ ''16'' = ''192.168.0.0/16''"
    by (simp_all add: parse_defs)
  have f: "length (Split ''fd00::/8'' (CHR ''/'')) = 2
           \<and> isBase10Integer (Split ''fd00::/8'' (CHR ''/'') ! 1)
           \<and> inIntRange (base10Value (Split ''fd00::/8'' (CHR ''/'') ! 1))"
    by (simp add: parse_defs)
  have fv: "Split ''fd00::/8'' (CHR ''/'') ! 0 = ''fd00::''"
    "base10Value (Split ''fd00::/8'' (CHR ''/'') ! 1) = 8"
    by (simp_all add: parse_defs)
  have 1: "\<not> snd (snd (parseNetworkAndPrefix ''10.0.0.0/24/1''))"
    using a parseNetworkAndPrefix_spec [of "''10.0.0.0/24/1''"] by blast
  have 2: "\<not> snd (snd (parseNetworkAndPrefix ''10.0.0.0''))"
    using b parseNetworkAndPrefix_spec [of "''10.0.0.0''"] by blast
  have 3: "\<not> snd (snd (parseNetworkAndPrefix ''10.0.0.0/x''))"
    using c d parseNetworkAndPrefix_spec [of "''10.0.0.0/x''"] by blast
  have 4: "parseNetworkAndPrefix ''192.168.0.0/16'' = (''192.168.0.0'', 16, True)"
    using e parseNetworkAndPrefix_spec [of "[]" "''192.168.0.0''" "''16''"]
    by (simp add: ev)
  have 5: "parseNetworkAndPrefix ''fd00::/8'' = (''fd00::'', 8, True)"
    using f parseNetworkAndPrefix_spec [of "''fd00::/8''"]
    by (simp only: fv)
  show ?thesis
    using a b c d e f 1 2 3 4 5 by blast
qed

subsection \<open>Parsing a port\<close>




subsection \<open>Normalizing the action\<close>

text \<open>
  C6, as stated, fails on \<open>ACCEPT_DECISIVELY\<close> written with the rune U+0130 for each
  \<open>I\<close>: the string is a case variant of none of the five words, letter by letter, and
  yet it is not returned unchanged but mapped to the accept action, because Go's
  lower-casing takes the rune to \<open>i\<close>.
\<close>

theorem normalizeFirewallRuleAction_counterexample:
  "\<not> caseVariantOf ''accept'' dottedAcceptDecisively
   \<and> \<not> caseVariantOf ''accept_decisively'' dottedAcceptDecisively
   \<and> \<not> caseVariantOf ''allow'' dottedAcceptDecisively
   \<and> \<not> caseVariantOf ''drop'' dottedAcceptDecisively
   \<and> \<not> caseVariantOf ''deny'' dottedAcceptDecisively
   \<and> normalizeFirewallRuleAction dottedAcceptDecisively = FirewallRuleActionAccept
   \<and> normalizeFirewallRuleAction dottedAcceptDecisively \<noteq> dottedAcceptDecisively"
  by code_simp

lemma word_chars:
  "list_all isWordChar ''accept''"
  "list_all isWordChar ''accept_decisively''"
  "list_all isWordChar ''allow''"
  "list_all isWordChar ''drop''"
  "list_all isWordChar ''deny''"
  by (simp_all add: isWordChar_def isLowerLetter_def)

lemma caseVariantOf_spelledAs:
  assumes "caseVariantOf word s" and "list_all isWordChar word"
  shows "spelledAs word s"
proof -
  have "isASCII c" if "isWordChar c" for c
    using that by (auto simp: isWordChar_def isLowerLetter_def isASCII_def)
  with assms(2) have "list_all isASCII word"
    by (auto simp: list_all_iff)
  with assms(1) have "ToLower s = word"
    by (rule caseVariantOf_ToLower)
  with assms(2) show ?thesis
    by (simp add: ToLower_spelledAs)
qed

text \<open>
  C6, amended. For every input string, \<^verbatim>\<open>normalizeFirewallRuleAction\<close> maps every
  spelling of \<open>accept\<close>, \<open>accept_decisively\<close> and \<open>allow\<close> that Go's lower-casing takes
  to the word (each letter in either case, an \<open>i\<close> also as the rune U+0130, a \<open>k\<close> also
  as the rune U+212A) to the accept action, among them every case variant and so
  \<open>ALLOW\<close>, \<open>accept\<close> and \<open>Accept_Decisively\<close>; it maps every such spelling of \<open>drop\<close>
  and \<open>deny\<close> to the drop action, among them \<open>Deny\<close> and \<open>drop\<close>; and it returns every
  other value unchanged.
\<close>

theorem normalizeFirewallRuleAction_spec:
  "normalizeFirewallRuleAction action =
     (if spelledAs ''accept'' action \<or> spelledAs ''accept_decisively'' action
           \<or> spelledAs ''allow'' action
      then FirewallRuleActionAccept
      else if spelledAs ''drop'' action \<or> spelledAs ''deny'' action
      then FirewallRuleActionDrop
      else action)
   \<and> (caseVariantOf ''accept'' action \<or> caseVariantOf ''accept_decisively'' action
      \<or> caseVariantOf ''allow'' action
      \<longrightarrow> normalizeFirewallRuleAction action = FirewallRuleActionAccept)
   \<and> (caseVariantOf ''drop'' action \<or> caseVariantOf ''deny'' action
      \<longrightarrow> normalizeFirewallRuleAction action = FirewallRuleActionDrop)
   \<and> normalizeFirewallRuleAction ''ALLOW'' = FirewallRuleActionAccept
   \<and> normalizeFirewallRuleAction ''accept'' = FirewallRuleActionAccept
   \<and> normalizeFirewallRuleAction ''Accept_Decisively'' = FirewallRuleActionAccept
   \<and> normalizeFirewallRuleAction ''Deny'' = FirewallRuleActionDrop
   \<and> normalizeFirewallRuleAction ''drop'' = FirewallRuleActionDrop"
proof (intro conjI impI)
  have s: "spelledAs ''accept'' action = (ToLower action = ''accept'')"
    "spelledAs ''accept_decisively'' action = (ToLower action = ''accept_decisively'')"
    "spelledAs ''allow'' action = (ToLower action = ''allow'')"
    "spelledAs ''drop'' action = (ToLower action = ''drop'')"
    "spelledAs ''deny'' action = (ToLower action = ''deny'')"
    by (simp_all only: ToLower_spelledAs [OF word_chars(1)] ToLower_spelledAs [OF word_chars(2)]
        ToLower_spelledAs [OF word_chars(3)] ToLower_spelledAs [OF word_chars(4)]
        ToLower_spelledAs [OF word_chars(5)])
  show "normalizeFirewallRuleAction action =
     (if spelledAs ''accept'' action \<or> spelledAs ''accept_decisively'' action
           \<or> spelledAs ''allow'' action
      then FirewallRuleActionAccept
      else if spelledAs ''drop'' action \<or> spelledAs ''deny'' action
      then FirewallRuleActionDrop
      else action)"
    unfolding s by (simp add: normalizeFirewallRuleAction_def Let_def)
next
  assume "caseVariantOf ''accept'' action \<or> caseVariantOf ''accept_decisively'' action
      \<or> caseVariantOf ''allow'' action"
  then have "ToLower action = ''accept'' \<or> ToLower action = ''accept_decisively''
      \<or> ToLower action = ''allow''"
    by (auto dest!: caseVariantOf_ToLower simp: isASCII_def)
  then show "normalizeFirewallRuleAction action = FirewallRuleActionAccept"
    by (auto simp: normalizeFirewallRuleAction_def)
next
  assume "caseVariantOf ''drop'' action \<or> caseVariantOf ''deny'' action"
  then have "ToLower action = ''drop'' \<or> ToLower action = ''deny''"
    by (auto dest!: caseVariantOf_ToLower simp: isASCII_def)
  then show "normalizeFirewallRuleAction action = FirewallRuleActionDrop"
    by (auto simp: normalizeFirewallRuleAction_def)
next
  show "normalizeFirewallRuleAction ''ALLOW'' = FirewallRuleActionAccept"
    by code_simp
  show "normalizeFirewallRuleAction ''accept'' = FirewallRuleActionAccept"
    by code_simp
  show "normalizeFirewallRuleAction ''Accept_Decisively'' = FirewallRuleActionAccept"
    by code_simp
  show "normalizeFirewallRuleAction ''Deny'' = FirewallRuleActionDrop"
    by code_simp
  show "normalizeFirewallRuleAction ''drop'' = FirewallRuleActionDrop"
    by code_simp
qed

theorem normalizeFirewallRuleAction_spec_witness:
  "caseVariantOf ''allow'' ''aLLoW''
   \<and> normalizeFirewallRuleAction ''aLLoW'' = FirewallRuleActionAccept
   \<and> caseVariantOf ''deny'' ''DENY''
   \<and> normalizeFirewallRuleAction ''DENY'' = FirewallRuleActionDrop
   \<and> spelledAs ''accept_decisively'' dottedAcceptDecisively
   \<and> normalizeFirewallRuleAction dottedAcceptDecisively = FirewallRuleActionAccept
   \<and> \<not> spelledAs ''accept'' ''Reject'' \<and> \<not> spelledAs ''accept_decisively'' ''Reject''
   \<and> \<not> spelledAs ''allow'' ''Reject'' \<and> \<not> spelledAs ''drop'' ''Reject''
   \<and> \<not> spelledAs ''deny'' ''Reject''
   \<and> normalizeFirewallRuleAction ''Reject'' = ''Reject''"
proof -
  have a: "caseVariantOf ''allow'' ''aLLoW''" by code_simp
  have b: "caseVariantOf ''deny'' ''DENY''" by code_simp
  have c: "spelledAs ''accept_decisively'' dottedAcceptDecisively" by code_simp
  have d: "\<not> spelledAs ''accept'' ''Reject''" "\<not> spelledAs ''accept_decisively'' ''Reject''"
    "\<not> spelledAs ''allow'' ''Reject''" "\<not> spelledAs ''drop'' ''Reject''"
    "\<not> spelledAs ''deny'' ''Reject''"
    by code_simp+
  have 1: "normalizeFirewallRuleAction ''aLLoW'' = FirewallRuleActionAccept"
    using a normalizeFirewallRuleAction_spec [of "''aLLoW''"] by blast
  have 2: "normalizeFirewallRuleAction ''DENY'' = FirewallRuleActionDrop"
    using b normalizeFirewallRuleAction_spec [of "''DENY''"] by blast
  have 3: "normalizeFirewallRuleAction dottedAcceptDecisively = FirewallRuleActionAccept"
    using c normalizeFirewallRuleAction_spec [of dottedAcceptDecisively] by simp
  have 4: "normalizeFirewallRuleAction ''Reject'' = ''Reject''"
    using d normalizeFirewallRuleAction_spec [of "''Reject''"] by simp
  show ?thesis
    using a b c d 1 2 3 4 by blast
qed

subsection \<open>Scope resolution\<close>

lemmas match_defs =
  MatchSourceAddressAndPort_def MatchSourceNetworkAndPort_def MatchAnySourceAddress_def
  MatchAnySource_def MatchDestinationAddressAndPort_def MatchDestinationNetworkAndPort_def
  MatchAnyDestinationAddress_def MatchAnyDestination_def

lemmas data_defs =
  GetOptionalString_def data_GetString_def data_GetBool_def data_Id_def data_SetId_def
  data_Set_def data_HasChange_def ruleData_def exampleData_def

lemma configureSourceScope_Action:
  "configureSourceScope data configuration = Inr configuration'
   \<Longrightarrow> Action configuration' = Action configuration
     \<and> NetworkDomainID configuration' = NetworkDomainID configuration"
  by (auto simp: configureSourceScope_def match_defs
      split: prod.splits option.splits if_splits)

lemma configureDestinationScope_Action:
  "configureDestinationScope data configuration = Inr configuration'
   \<Longrightarrow> Action configuration' = Action configuration
     \<and> NetworkDomainID configuration' = NetworkDomainID configuration"
  by (auto simp: configureDestinationScope_def match_defs
      split: prod.splits option.splits if_splits)

text \<open>
  C2, as stated, fails where the port is declared as \<open>any\<close> and no address or network
  is: the port is present, and resolution selects "any address, any port", not "any
  address with port". It fails also where the port does not parse: resolution returns
  an error and selects none of the four modes.
\<close>

theorem scope_mode_counterexample:
  "sourcePortOf (ruleData [(''source_port'', AttrString ''any'')] False) = Some ''any''
   \<and> specScopeMode
        (sourceAddressOf (ruleData [(''source_port'', AttrString ''any'')] False))
        (sourceNetworkOf (ruleData [(''source_port'', AttrString ''any'')] False))
        (sourcePortOf (ruleData [(''source_port'', AttrString ''any'')] False))
       = AnyAddressWithPort
   \<and> sourceMode (ruleData [(''source_port'', AttrString ''any'')] False)
        (newConfiguration asciiToUpper (ruleData [(''source_port'', AttrString ''any'')] False))
       = Some AnyAddressAnyPort
   \<and> sourceMode (ruleData [(''source_port'', AttrString ''abc'')] False)
        (newConfiguration asciiToUpper (ruleData [(''source_port'', AttrString ''abc'')] False))
       = None"
proof -
  have f:
    "sourceAddressOf (ruleData [(''source_port'', AttrString p)] False) = None"
    "sourceNetworkOf (ruleData [(''source_port'', AttrString p)] False) = None"
    "p \<noteq> [] \<Longrightarrow> sourcePortOf (ruleData [(''source_port'', AttrString p)] False) = Some p"
    for p
    by (simp_all add: data_defs resourceKey_defs)
  have p: "parseFirewallPort (Some ''any'') = (None, None)"
    "parseFirewallPort (Some ''abc'') = (None, Some (NumError ''abc'' ErrSyntax))"
    by (simp_all add: parse_defs)
  show ?thesis
    by (simp add: f p sourceMode_def configureSourceScope_def specScopeMode_def match_defs)
qed

text \<open>
  C2, amended. For every combination of the optional scope fields that can be resolved
  (the port parses, and so does the network where no address is given), source-scope and
  destination-scope resolution each select exactly one of the four matching modes, in
  the priority order address, network, port, any, where the port is the parsed port
  constraint (the literal \<open>any\<close> is none). For every other combination resolution
  returns an error and selects no mode.
\<close>

theorem scope_mode_priority:
  "sourceMode data configuration =
     (if resolvable (sourceAddressOf data) (sourceNetworkOf data) (sourcePortOf data)
      then Some (specScopeMode (sourceAddressOf data) (sourceNetworkOf data)
                   (fst (parseFirewallPort (sourcePortOf data))))
      else None)
   \<and> destinationMode data configuration =
     (if resolvable (destinationAddressOf data) (destinationNetworkOf data)
           (destinationPortOf data)
      then Some (specScopeMode (destinationAddressOf data) (destinationNetworkOf data)
                   (fst (parseFirewallPort (destinationPortOf data))))
      else None)"
proof
  show "sourceMode data configuration =
     (if resolvable (sourceAddressOf data) (sourceNetworkOf data) (sourcePortOf data)
      then Some (specScopeMode (sourceAddressOf data) (sourceNetworkOf data)
                   (fst (parseFirewallPort (sourcePortOf data))))
      else None)"
    by (auto simp: sourceMode_def configureSourceScope_def resolvable_def specScopeMode_def
        match_defs split: prod.splits option.splits)
  show "destinationMode data configuration =
     (if resolvable (destinationAddressOf data) (destinationNetworkOf data)
           (destinationPortOf data)
      then Some (specScopeMode (destinationAddressOf data) (destinationNetworkOf data)
                   (fst (parseFirewallPort (destinationPortOf data))))
      else None)"
    by (auto simp: destinationMode_def configureDestinationScope_def resolvable_def
        specScopeMode_def match_defs split: prod.splits option.splits)
qed

lemma configureSourceScope_fails:
  "(\<exists>err. configureSourceScope data configuration = Inl err)
     = (\<not> resolvable (sourceAddressOf data) (sourceNetworkOf data) (sourcePortOf data))"
  by (auto simp: configureSourceScope_def resolvable_def split: prod.splits option.splits)

lemma configureDestinationScope_fails:
  "(\<exists>err. configureDestinationScope data configuration = Inl err)
     = (\<not> resolvable (destinationAddressOf data) (destinationNetworkOf data)
           (destinationPortOf data))"
  by (auto simp: configureDestinationScope_def resolvable_def
      split: prod.splits option.splits)

lemma exampleData_fields:
  "sourceAddressOf exampleData = Some ''192.168.1.1''"
  "sourceNetworkOf exampleData = None"
  "sourcePortOf exampleData = Some ''8080''"
  "destinationAddressOf exampleData = None"
  "destinationNetworkOf exampleData = Some ''10.0.0.0/24''"
  "destinationPortOf exampleData = Some ''any''"
  by (simp_all add: data_defs resourceKey_defs)

lemma example_parses:
  "parseFirewallPort (Some ''8080'') = (Some 8080, None)"
  "parseFirewallPort (Some ''any'') = (None, None)"
  "parseFirewallPort (Some ''abc'') = (None, Some (NumError ''abc'' ErrSyntax))"
  "parseFirewallPort None = (None, None)"
  "parseNetworkAndPrefix ''10.0.0.0/24'' = (''10.0.0.0'', 24, True)"
  "parseNetworkAndPrefix ''10.0.0.0'' = ([], 0, False)"
  by (simp_all add: parse_defs)

theorem scope_mode_priority_witness:
  "resolvable (sourceAddressOf exampleData) (sourceNetworkOf exampleData)
     (sourcePortOf exampleData)
   \<and> sourceMode exampleData (newConfiguration asciiToUpper exampleData) = Some AddressAndPort
   \<and> resolvable (destinationAddressOf exampleData) (destinationNetworkOf exampleData)
     (destinationPortOf exampleData)
   \<and> destinationMode exampleData (newConfiguration asciiToUpper exampleData) = Some NetworkAndPort"
proof -
  have a: "resolvable (sourceAddressOf exampleData) (sourceNetworkOf exampleData)
     (sourcePortOf exampleData)"
    by (simp add: resolvable_def exampleData_fields example_parses)
  have b: "resolvable (destinationAddressOf exampleData) (destinationNetworkOf exampleData)
     (destinationPortOf exampleData)"
    by (simp add: resolvable_def exampleData_fields example_parses)
  show ?thesis
    using a b scope_mode_priority [of exampleData "newConfiguration asciiToUpper exampleData"]
    by (simp add: exampleData_fields specScopeMode_def)
qed

text \<open>
  C3 fails for the destination scope: the error for a malformed destination network
  names the value and the rule, and calls the field the source network. The input is a
  rule named \<open>rule1\<close> whose destination network \<open>10.0.0.0\<close> has no slash.
\<close>

theorem destination_network_error_names_source:
  "configureDestinationScope
     (ruleData [(''destination_network'', AttrString ''10.0.0.0'')] False)
     (newConfiguration asciiToUpper (ruleData [(''destination_network'', AttrString ''10.0.0.0'')] False))
   = Inl (Errorf (''Source network '' @ quoted ''10.0.0.0'' @ '' for firewall rule ''
        @ quoted ''rule1'' @ '' is invalid (must be '' @ quoted ''BaseAddress/PrefixSize''
        @ '')''))"
proof -
  have f:
    "destinationAddressOf (ruleData [(''destination_network'', AttrString ''10.0.0.0'')] False)
       = None"
    "destinationNetworkOf (ruleData [(''destination_network'', AttrString ''10.0.0.0'')] False)
       = Some ''10.0.0.0''"
    "destinationPortOf (ruleData [(''destination_network'', AttrString ''10.0.0.0'')] False)
       = None"
    "data_GetString (ruleData [(''destination_network'', AttrString ''10.0.0.0'')] False)
       resourceKeyFirewallRuleName = ''rule1''"
    by (simp_all add: data_defs resourceKey_defs)
  show ?thesis
    by (simp add: configureDestinationScope_def f example_parses)
qed


subsection \<open>Create\<close>

lemma create_success:
  assumes "configureSourceScope data (newConfiguration ToUpper data) = Inr configuration1"
      and "configureDestinationScope data configuration1 = Inr configuration"
      and "CreateFirewallRule (Client provider) configuration = Inr ruleID"
  shows "resourceFirewallRuleCreate ToUpper data provider =
     (WaitForDeploy (Client provider) ResourceTypeFirewallRule ruleID
        resourceCreateTimeoutFirewallRule,
      data_SetId data ruleID,
      [Lock (NetworkDomainID configuration), CallCreateFirewallRule configuration,
       SetId ruleID,
       CallWaitForDeploy ResourceTypeFirewallRule ruleID resourceCreateTimeoutFirewallRule,
       Unlock (NetworkDomainID configuration)])"
  using assms by (simp add: resourceFirewallRuleCreate_def Let_def)

lemma example_source:
  "configureSourceScope exampleData configuration =
     Inr (configuration\<lparr>Source := MatchAddressAndPort ''192.168.1.1'' (Some 8080)\<rparr>)"
  by (simp add: configureSourceScope_def exampleData_fields example_parses match_defs)

lemma example_destination:
  "configureDestinationScope exampleData configuration =
     Inr (configuration\<lparr>Destination := MatchNetworkAndPort ''10.0.0.0'' 24 None\<rparr>)"
  by (simp add: configureDestinationScope_def exampleData_fields example_parses match_defs)

lemma example_action:
  "data_GetString exampleData resourceKeyFirewallRuleAction = ''allow''"
  by (simp add: data_defs resourceKey_defs)

lemma example_newConfiguration:
  "Action (newConfiguration asciiToUpper exampleData) = ''allow''"
  "NetworkDomainID (newConfiguration asciiToUpper exampleData) = ''domain1''"
  by (simp_all add: newConfiguration_def data_defs resourceKey_defs)

lemma example_client:
  "CreateFirewallRule (Client exampleProvider) configuration = Inr ''rule-1''"
  "WaitForDeploy (Client exampleProvider) resourceType ruleID timeout
     = Some (ClientError ''timed out'')"
  by (simp_all add: exampleProvider_def exampleClient_def)

lemma example_create:
  "resourceFirewallRuleCreate asciiToUpper exampleData exampleProvider =
     (Some (ClientError ''timed out''),
      data_SetId exampleData ''rule-1'',
      [Lock ''domain1'',
       CallCreateFirewallRule
         (newConfiguration asciiToUpper exampleData
            \<lparr>Source := MatchAddressAndPort ''192.168.1.1'' (Some 8080),
             Destination := MatchNetworkAndPort ''10.0.0.0'' 24 None\<rparr>),
       SetId ''rule-1'',
       CallWaitForDeploy ResourceTypeFirewallRule ''rule-1'' resourceCreateTimeoutFirewallRule,
       Unlock ''domain1''])"
  using create_success [where ToUpper = asciiToUpper, OF example_source example_destination
      example_client(1)]
  by (simp add: example_client example_newConfiguration)

lemma create_configuration_action:
  assumes "CallCreateFirewallRule configuration
             \<in> set (snd (snd (resourceFirewallRuleCreate ToUpper data provider)))"
  shows "Action configuration = data_GetString data resourceKeyFirewallRuleAction"
proof -
  have n: "Action (newConfiguration ToUpper data) = data_GetString data resourceKeyFirewallRuleAction"
    by (simp add: newConfiguration_def)
  from assms show ?thesis
    by (auto simp: resourceFirewallRuleCreate_def Let_def n
        split: sum.splits
        dest!: configureSourceScope_Action configureDestinationScope_Action)
qed

text \<open>
  C1 fails in the code. For the rule of the example, declared with the action
  \<open>allow\<close>, the configuration handed to the remote create call has the action
  \<open>allow\<close> as declared, while normalizing \<open>allow\<close> gives the accept action: the
  assignment after the literal puts the declared action back.
\<close>

theorem create_sends_declared_action:
  "map Action (createdConfigurations
      (snd (snd (resourceFirewallRuleCreate asciiToUpper exampleData exampleProvider)))) = [''allow'']
   \<and> normalizeFirewallRuleAction (data_GetString exampleData resourceKeyFirewallRuleAction)
       = FirewallRuleActionAccept
   \<and> FirewallRuleActionAccept \<noteq> ''allow''"
proof -
  have "normalizeFirewallRuleAction ''allow'' = FirewallRuleActionAccept"
    by code_simp
  then show ?thesis
    by (simp add: example_create example_action example_newConfiguration
        FirewallRuleActionAccept_def)
qed

text \<open>
  C9. Whenever create reaches the remote create call and the call succeeds, create
  stores the returned identifier, then waits for the deployment with a timeout of 30
  minutes, and returns what the wait returns; the identifier stays stored when the wait
  fails.
\<close>

theorem create_stores_id_then_waits:
  assumes "resourceFirewallRuleCreate ToUpper data provider = (err, data', trace)"
      and "CallCreateFirewallRule configuration \<in> set trace"
      and "CreateFirewallRule (Client provider) configuration = Inr ruleID"
  shows "trace =
     [Lock (NetworkDomainID configuration), CallCreateFirewallRule configuration,
      SetId ruleID, CallWaitForDeploy ResourceTypeFirewallRule ruleID (30 * Minute),
      Unlock (NetworkDomainID configuration)]
   \<and> data' = data_SetId data ruleID
   \<and> data_Id data' = ruleID
   \<and> err = WaitForDeploy (Client provider) ResourceTypeFirewallRule ruleID (30 * Minute)"
  using assms
  by (auto simp: resourceFirewallRuleCreate_def Let_def resourceCreateTimeoutFirewallRule_def
      data_Id_def data_SetId_def split: sum.splits)

theorem create_stores_id_then_waits_witness:
  "snd (snd (resourceFirewallRuleCreate asciiToUpper exampleData exampleProvider)) =
     [Lock ''domain1'',
      CallCreateFirewallRule
        (newConfiguration asciiToUpper exampleData
           \<lparr>Source := MatchAddressAndPort ''192.168.1.1'' (Some 8080),
            Destination := MatchNetworkAndPort ''10.0.0.0'' 24 None\<rparr>),
      SetId ''rule-1'',
      CallWaitForDeploy ResourceTypeFirewallRule ''rule-1'' (30 * Minute),
      Unlock ''domain1'']
   \<and> data_Id (fst (snd (resourceFirewallRuleCreate asciiToUpper exampleData exampleProvider))) = ''rule-1''
   \<and> fst (resourceFirewallRuleCreate asciiToUpper exampleData exampleProvider)
       = Some (ClientError ''timed out'')"
proof -
  let ?c = "newConfiguration asciiToUpper exampleData
           \<lparr>Source := MatchAddressAndPort ''192.168.1.1'' (Some 8080),
            Destination := MatchNetworkAndPort ''10.0.0.0'' 24 None\<rparr>"
  have a: "CallCreateFirewallRule ?c \<in> set
     [Lock ''domain1'', CallCreateFirewallRule ?c, SetId ''rule-1'',
      CallWaitForDeploy ResourceTypeFirewallRule ''rule-1'' resourceCreateTimeoutFirewallRule,
      Unlock ''domain1'']"
    by simp
  show ?thesis
    using create_stores_id_then_waits [OF example_create a example_client(1)]
    by (simp add: example_create example_client example_newConfiguration)
qed

text \<open>
  C10. When the resolution of the source scope or of the destination scope fails,
  create returns that error and has done nothing else: no lock taken, no remote call
  made, the identifier not set and the resource data as it was. Resolution fails exactly
  for a port that does not parse and for a network that is used and does not parse, so
  each of these ends create in this way.
\<close>

theorem create_validation_error:
  "(configureSourceScope data (newConfiguration ToUpper data) = Inl err
      \<longrightarrow> resourceFirewallRuleCreate ToUpper data provider = (Some err, data, []))
   \<and> (configureSourceScope data (newConfiguration ToUpper data) = Inr configuration1
        \<and> configureDestinationScope data configuration1 = Inl err
      \<longrightarrow> resourceFirewallRuleCreate ToUpper data provider = (Some err, data, []))
   \<and> (\<not> resolvable (sourceAddressOf data) (sourceNetworkOf data) (sourcePortOf data)
        \<or> \<not> resolvable (destinationAddressOf data) (destinationNetworkOf data)
             (destinationPortOf data)
      \<longrightarrow> (\<exists>e. resourceFirewallRuleCreate ToUpper data provider = (Some e, data, [])))"
proof (intro conjI impI)
  assume "configureSourceScope data (newConfiguration ToUpper data) = Inl err"
  then show "resourceFirewallRuleCreate ToUpper data provider = (Some err, data, [])"
    by (simp add: resourceFirewallRuleCreate_def)
next
  assume "configureSourceScope data (newConfiguration ToUpper data) = Inr configuration1
        \<and> configureDestinationScope data configuration1 = Inl err"
  then show "resourceFirewallRuleCreate ToUpper data provider = (Some err, data, [])"
    by (simp add: resourceFirewallRuleCreate_def)
next
  assume bad: "\<not> resolvable (sourceAddressOf data) (sourceNetworkOf data) (sourcePortOf data)
        \<or> \<not> resolvable (destinationAddressOf data) (destinationNetworkOf data)
             (destinationPortOf data)"
  show "\<exists>e. resourceFirewallRuleCreate ToUpper data provider = (Some e, data, [])"
  proof (cases "configureSourceScope data (newConfiguration ToUpper data)")
    case (Inl e)
    then show ?thesis
      by (simp add: resourceFirewallRuleCreate_def)
  next
    case (Inr configuration1)
    then have "resolvable (sourceAddressOf data) (sourceNetworkOf data) (sourcePortOf data)"
      using configureSourceScope_fails [of data "newConfiguration ToUpper data"] by auto
    with bad obtain e where "configureDestinationScope data configuration1 = Inl e"
      using configureDestinationScope_fails [of data configuration1] by auto
    with Inr show ?thesis
      by (simp add: resourceFirewallRuleCreate_def)
  qed
qed

theorem create_validation_error_witness:
  "configureSourceScope (ruleData [(''source_port'', AttrString ''abc'')] False)
     (newConfiguration asciiToUpper (ruleData [(''source_port'', AttrString ''abc'')] False))
     = Inl (NumError ''abc'' ErrSyntax)
   \<and> resourceFirewallRuleCreate asciiToUpper (ruleData [(''source_port'', AttrString ''abc'')] False)
       exampleProvider
     = (Some (NumError ''abc'' ErrSyntax),
        ruleData [(''source_port'', AttrString ''abc'')] False, [])
   \<and> configureSourceScope (ruleData [(''destination_port'', AttrString ''abc'')] False)
       (newConfiguration asciiToUpper (ruleData [(''destination_port'', AttrString ''abc'')] False))
     = Inr (newConfiguration asciiToUpper (ruleData [(''destination_port'', AttrString ''abc'')] False)
             \<lparr>Source := MatchAny\<rparr>)
   \<and> configureDestinationScope (ruleData [(''destination_port'', AttrString ''abc'')] False)
       (newConfiguration asciiToUpper (ruleData [(''destination_port'', AttrString ''abc'')] False)
             \<lparr>Source := MatchAny\<rparr>)
     = Inl (NumError ''abc'' ErrSyntax)
   \<and> resourceFirewallRuleCreate asciiToUpper (ruleData [(''destination_port'', AttrString ''abc'')] False)
       exampleProvider
     = (Some (NumError ''abc'' ErrSyntax),
        ruleData [(''destination_port'', AttrString ''abc'')] False, [])
   \<and> \<not> resolvable
         (destinationAddressOf (ruleData [(''destination_network'', AttrString ''10.0.0.0'')] False))
         (destinationNetworkOf (ruleData [(''destination_network'', AttrString ''10.0.0.0'')] False))
         (destinationPortOf (ruleData [(''destination_network'', AttrString ''10.0.0.0'')] False))
   \<and> fst (resourceFirewallRuleCreate asciiToUpper
         (ruleData [(''destination_network'', AttrString ''10.0.0.0'')] False) exampleProvider)
       \<noteq> None
   \<and> snd (resourceFirewallRuleCreate asciiToUpper
         (ruleData [(''destination_network'', AttrString ''10.0.0.0'')] False) exampleProvider)
       = (ruleData [(''destination_network'', AttrString ''10.0.0.0'')] False, [])"
proof -
  let ?s = "ruleData [(''source_port'', AttrString ''abc'')] False"
  let ?p = "ruleData [(''destination_port'', AttrString ''abc'')] False"
  let ?d = "ruleData [(''destination_network'', AttrString ''10.0.0.0'')] False"
  have fs: "sourcePortOf ?s = Some ''abc''"
    by (simp add: data_defs resourceKey_defs)
  have fp: "sourceAddressOf ?p = None" "sourceNetworkOf ?p = None" "sourcePortOf ?p = None"
    "destinationPortOf ?p = Some ''abc''"
    by (simp_all add: data_defs resourceKey_defs)
  have fd: "destinationAddressOf ?d = None" "destinationNetworkOf ?d = Some ''10.0.0.0''"
    "destinationPortOf ?d = None"
    by (simp_all add: data_defs resourceKey_defs)
  have a: "configureSourceScope ?s (newConfiguration asciiToUpper ?s) = Inl (NumError ''abc'' ErrSyntax)"
    by (simp add: configureSourceScope_def fs example_parses)
  have b: "configureSourceScope ?p (newConfiguration asciiToUpper ?p)
             = Inr (newConfiguration asciiToUpper ?p\<lparr>Source := MatchAny\<rparr>)"
    by (simp add: configureSourceScope_def fp example_parses match_defs)
  have c: "configureDestinationScope ?p (newConfiguration asciiToUpper ?p\<lparr>Source := MatchAny\<rparr>)
             = Inl (NumError ''abc'' ErrSyntax)"
    by (simp add: configureDestinationScope_def fp example_parses)
  have d: "\<not> resolvable (destinationAddressOf ?d) (destinationNetworkOf ?d)
             (destinationPortOf ?d)"
    by (simp add: resolvable_def fd example_parses)
  from a create_validation_error [of ?s asciiToUpper "NumError ''abc'' ErrSyntax"
      exampleProvider]
  have 1: "resourceFirewallRuleCreate asciiToUpper ?s exampleProvider
             = (Some (NumError ''abc'' ErrSyntax), ?s, [])"
    by blast
  from b c create_validation_error [of ?p asciiToUpper "NumError ''abc'' ErrSyntax"
      exampleProvider
      "newConfiguration asciiToUpper ?p\<lparr>Source := MatchAny\<rparr>"]
  have 2: "resourceFirewallRuleCreate asciiToUpper ?p exampleProvider
             = (Some (NumError ''abc'' ErrSyntax), ?p, [])"
    by blast
  from d create_validation_error [of ?d asciiToUpper _ exampleProvider]
  obtain e where 3: "resourceFirewallRuleCreate asciiToUpper ?d exampleProvider = (Some e, ?d, [])"
    by blast
  show ?thesis
    using a b c d 1 2 by (simp add: 3)
qed

subsection \<open>Read\<close>

text \<open>
  C7. When the remote side returns no rule and no error, read clears the stored
  identifier and returns no error. When it returns a rule, read returns no error and
  copies the rule's \<open>Enabled\<close> flag into the \<open>enabled\<close> attribute; the identifier,
  every other attribute and the host's change detection stay as they were.
\<close>

theorem read_spec:
  "(GetFirewallRule (Client provider) (data_Id data) = Inr None
      \<longrightarrow> resourceFirewallRuleRead data provider =
            (None, data\<lparr>ident := []\<rparr>, [CallGetFirewallRule (data_Id data), SetId []]))
   \<and> (GetFirewallRule (Client provider) (data_Id data) = Inr (Some rule)
      \<longrightarrow> fst (resourceFirewallRuleRead data provider) = None
        \<and> ident (fst (snd (resourceFirewallRuleRead data provider))) = ident data
        \<and> changed (fst (snd (resourceFirewallRuleRead data provider))) = changed data
        \<and> attrs (fst (snd (resourceFirewallRuleRead data provider)))
             resourceKeyFirewallRuleEnabled = Some (AttrBool (RuleEnabled rule))
        \<and> (\<forall>key. key \<noteq> resourceKeyFirewallRuleEnabled
             \<longrightarrow> attrs (fst (snd (resourceFirewallRuleRead data provider))) key
                 = attrs data key))"
proof (intro conjI impI allI)
  assume "GetFirewallRule (Client provider) (data_Id data) = Inr None"
  then show "resourceFirewallRuleRead data provider =
      (None, data\<lparr>ident := []\<rparr>, [CallGetFirewallRule (data_Id data), SetId []])"
    by (simp add: resourceFirewallRuleRead_def Let_def data_SetId_def)
next
  assume found: "GetFirewallRule (Client provider) (data_Id data) = Inr (Some rule)"
  then have r: "resourceFirewallRuleRead data provider =
      (None,
       data\<lparr>attrs := (attrs data)(resourceKeyFirewallRuleEnabled
                \<mapsto> AttrBool (RuleEnabled rule))\<rparr>,
       [CallGetFirewallRule (data_Id data),
        SetAttr resourceKeyFirewallRuleEnabled (AttrBool (RuleEnabled rule))])"
    by (simp add: resourceFirewallRuleRead_def Let_def data_Set_def)
  show "fst (resourceFirewallRuleRead data provider) = None"
    by (simp add: r)
  show "ident (fst (snd (resourceFirewallRuleRead data provider))) = ident data"
    by (simp add: r)
  show "changed (fst (snd (resourceFirewallRuleRead data provider))) = changed data"
    by (simp add: r)
  show "attrs (fst (snd (resourceFirewallRuleRead data provider)))
          resourceKeyFirewallRuleEnabled = Some (AttrBool (RuleEnabled rule))"
    by (simp add: r)
  show "attrs (fst (snd (resourceFirewallRuleRead data provider))) key = attrs data key"
    if "key \<noteq> resourceKeyFirewallRuleEnabled" for key
    using that by (simp add: r)
qed

theorem read_spec_witness:
  "GetFirewallRule (Client exampleProvider) (data_Id (exampleData\<lparr>ident := ''rule-9''\<rparr>))
     = Inr None
   \<and> fst (resourceFirewallRuleRead (exampleData\<lparr>ident := ''rule-9''\<rparr>) exampleProvider) = None
   \<and> ident (fst (snd (resourceFirewallRuleRead (exampleData\<lparr>ident := ''rule-9''\<rparr>)
        exampleProvider))) = []
   \<and> GetFirewallRule (Client exampleProvider) (data_Id exampleData)
     = Inr (Some \<lparr> RuleID = ''rule-0'', RuleEnabled = False \<rparr>)
   \<and> fst (resourceFirewallRuleRead exampleData exampleProvider) = None
   \<and> ident (fst (snd (resourceFirewallRuleRead exampleData exampleProvider))) = ''rule-0''
   \<and> attrs (fst (snd (resourceFirewallRuleRead exampleData exampleProvider))) ''enabled''
       = Some (AttrBool False)
   \<and> attrs (fst (snd (resourceFirewallRuleRead exampleData exampleProvider))) ''action''
       = Some (AttrString ''allow'')"
proof -
  have a: "GetFirewallRule (Client exampleProvider)
             (data_Id (exampleData\<lparr>ident := ''rule-9''\<rparr>)) = Inr None"
    by (simp add: exampleProvider_def exampleClient_def data_Id_def)
  have b: "GetFirewallRule (Client exampleProvider) (data_Id exampleData)
             = Inr (Some \<lparr> RuleID = ''rule-0'', RuleEnabled = False \<rparr>)"
    by (simp add: exampleProvider_def exampleClient_def data_defs)
  have i: "ident exampleData = ''rule-0''"
    "attrs exampleData ''action'' = Some (AttrString ''allow'')"
    by (simp_all add: data_defs)
  have k: "''action'' \<noteq> resourceKeyFirewallRuleEnabled"
    "resourceKeyFirewallRuleEnabled = ''enabled''"
    by (simp_all add: resourceKey_defs)
  from read_spec [of exampleProvider "exampleData\<lparr>ident := ''rule-9''\<rparr>"] a
  have 1: "fst (resourceFirewallRuleRead (exampleData\<lparr>ident := ''rule-9''\<rparr>) exampleProvider)
             = None
     \<and> ident (fst (snd (resourceFirewallRuleRead (exampleData\<lparr>ident := ''rule-9''\<rparr>)
          exampleProvider))) = []"
    by simp
  from read_spec [of exampleProvider exampleData "\<lparr> RuleID = ''rule-0'', RuleEnabled = False \<rparr>"]
    b k(1)
  have 2: "fst (resourceFirewallRuleRead exampleData exampleProvider) = None
     \<and> ident (fst (snd (resourceFirewallRuleRead exampleData exampleProvider))) = ident exampleData
     \<and> attrs (fst (snd (resourceFirewallRuleRead exampleData exampleProvider)))
          resourceKeyFirewallRuleEnabled = Some (AttrBool False)
     \<and> attrs (fst (snd (resourceFirewallRuleRead exampleData exampleProvider))) ''action''
          = attrs exampleData ''action''"
    by simp
  show ?thesis
    using a b 1 2 by (simp add: i k(2))
qed

subsection \<open>Update\<close>

text \<open>
  C8. Update makes the remote edit call exactly when the host reports a change of the
  \<open>enabled\<close> attribute, and makes no other remote call. Where the attribute has not
  changed it makes no remote call at all and returns no error.
\<close>

theorem update_spec:
  assumes "resourceFirewallRuleUpdate data provider = (err, data', trace)"
  shows "((\<exists>id enable. CallEditFirewallRule id enable \<in> set trace)
            = data_HasChange data resourceKeyFirewallRuleEnabled)
   \<and> filter isRemoteCall trace =
       (if data_HasChange data resourceKeyFirewallRuleEnabled
        then [CallEditFirewallRule (data_Id data)
                (data_GetBool data resourceKeyFirewallRuleEnabled)]
        else [])
   \<and> (\<not> data_HasChange data resourceKeyFirewallRuleEnabled \<longrightarrow> err = None)
   \<and> data' = data"
  using assms
  by (auto simp: resourceFirewallRuleUpdate_def Let_def split: if_splits option.splits)

theorem update_spec_witness:
  "\<not> data_HasChange exampleData resourceKeyFirewallRuleEnabled
   \<and> filter isRemoteCall (snd (snd (resourceFirewallRuleUpdate exampleData exampleProvider))) = []
   \<and> fst (resourceFirewallRuleUpdate exampleData exampleProvider) = None
   \<and> data_HasChange (exampleData\<lparr>changed := (\<lambda>key. True)\<rparr>) resourceKeyFirewallRuleEnabled
   \<and> filter isRemoteCall
       (snd (snd (resourceFirewallRuleUpdate (exampleData\<lparr>changed := (\<lambda>key. True)\<rparr>)
          exampleProvider)))
     = [CallEditFirewallRule ''rule-0'' True]"
proof -
  let ?d = "exampleData\<lparr>changed := (\<lambda>key. True)\<rparr>"
  have a: "\<not> data_HasChange exampleData resourceKeyFirewallRuleEnabled"
    by (simp add: data_defs)
  have b: "data_HasChange ?d resourceKeyFirewallRuleEnabled"
    by (simp add: data_HasChange_def)
  have c: "data_Id ?d = ''rule-0''" "data_GetBool ?d resourceKeyFirewallRuleEnabled = True"
    by (simp_all add: data_defs resourceKey_defs)
  have 1: "resourceFirewallRuleUpdate exampleData exampleProvider =
     (fst (resourceFirewallRuleUpdate exampleData exampleProvider),
      fst (snd (resourceFirewallRuleUpdate exampleData exampleProvider)),
      snd (snd (resourceFirewallRuleUpdate exampleData exampleProvider)))"
    by simp
  have 2: "resourceFirewallRuleUpdate ?d exampleProvider =
     (fst (resourceFirewallRuleUpdate ?d exampleProvider),
      fst (snd (resourceFirewallRuleUpdate ?d exampleProvider)),
      snd (snd (resourceFirewallRuleUpdate ?d exampleProvider)))"
    by simp
  show ?thesis
    using a b update_spec [OF 1] update_spec [OF 2]
    by (simp add: c)
qed

end
